theory Spec2Isabelle
  imports Complex_Main "HOL-Library.Multiset"
begin

section \<open>Candidate prioritizer: \<open>optimizeIceCandidates\<close> (signalingOptimizer)\<close>

text \<open>
  An ICE candidate as the browser hands it over (\<open>RTCIceCandidate\<close>): the descriptor
  string, the media identifier and two further fields that the prioritizer never reads.
\<close>

record ice_candidate =
  candidate :: string
  sdpMid :: "string option"
  sdpMLineIndex :: "nat option"
  usernameFragment :: "string option"

text \<open>\<open>String.prototype.includes\<close>: does \<open>sub\<close> occur as a contiguous part of \<open>s\<close>?\<close>

fun starts_with :: "string \<Rightarrow> string \<Rightarrow> bool" where
  "starts_with s [] = True"
| "starts_with [] (c # cs) = False"
| "starts_with (x # xs) (c # cs) = (x = c \<and> starts_with xs cs)"

fun js_includes :: "string \<Rightarrow> string \<Rightarrow> bool" where
  "js_includes [] sub = (sub = [])"
| "js_includes (x # xs) sub = (starts_with (x # xs) sub \<or> js_includes xs sub)"

text \<open>
  \<^verbatim>\<open>
  const getPriority = (candidate) => {
    if (candidate.includes('host')) return 3;
    if (candidate.includes('srflx')) return 2;
    if (candidate.includes('relay')) return 1;
    return 0;
  };
  \<close>
  The argument is the descriptor string; the type is recognised by a substring test.
\<close>

definition getPriority :: "string \<Rightarrow> int" where
  "getPriority s =
     (if js_includes s ''host'' then 3
      else if js_includes s ''srflx'' then 2
      else if js_includes s ''relay'' then 1
      else 0)"

text \<open>\<open>Array.prototype.findIndex\<close>: the first index whose element satisfies \<open>p\<close>, or \<open>-1\<close>.\<close>

fun findIndexFrom :: "('a \<Rightarrow> bool) \<Rightarrow> int \<Rightarrow> 'a list \<Rightarrow> int" where
  "findIndexFrom p i [] = - 1"
| "findIndexFrom p i (x # xs) = (if p x then i else findIndexFrom p (i + 1) xs)"

definition findIndex :: "('a \<Rightarrow> bool) \<Rightarrow> 'a list \<Rightarrow> int" where
  "findIndex p xs = findIndexFrom p 0 xs"

text \<open>
  \<open>Array.prototype.filter\<close> with the three-argument callback \<open>(element, index, self)\<close>;
  it builds a new array and leaves \<open>self\<close> as it is.
\<close>

fun filterFrom :: "('a \<Rightarrow> int \<Rightarrow> 'a list \<Rightarrow> bool) \<Rightarrow> int \<Rightarrow> 'a list \<Rightarrow> 'a list \<Rightarrow> 'a list" where
  "filterFrom f i self [] = []"
| "filterFrom f i self (x # xs) =
     (if f x i self then x # filterFrom f (i + 1) self xs else filterFrom f (i + 1) self xs)"

definition js_filter :: "('a \<Rightarrow> int \<Rightarrow> 'a list \<Rightarrow> bool) \<Rightarrow> 'a list \<Rightarrow> 'a list" where
  "js_filter f xs = filterFrom f 0 xs xs"

text \<open>
  \<open>Array.prototype.sort\<close> with a comparator. The language standard requires the sort to be
  stable; with a comparator that compares keys the result is then determined, and it is
  the one a stable insertion sort computes: \<open>x\<close> goes in front of the first \<open>y\<close> with
  \<open>cmp x y \<le> 0\<close>.
\<close>

fun js_insert :: "('a \<Rightarrow> 'a \<Rightarrow> int) \<Rightarrow> 'a \<Rightarrow> 'a list \<Rightarrow> 'a list" where
  "js_insert cmp x [] = [x]"
| "js_insert cmp x (y # ys) = (if cmp x y \<le> 0 then x # y # ys else y # js_insert cmp x ys)"

fun js_sort :: "('a \<Rightarrow> 'a \<Rightarrow> int) \<Rightarrow> 'a list \<Rightarrow> 'a list" where
  "js_sort cmp [] = []"
| "js_sort cmp (x # xs) = js_insert cmp x (js_sort cmp xs)"

text \<open>
  \<^verbatim>\<open>
  const uniqueCandidates = candidates.filter((candidate, index, self) =>
    index === self.findIndex((c) => (
      c.candidate === candidate.candidate && c.sdpMid === candidate.sdpMid)));
  return uniqueCandidates.sort((a, b) =>
    getPriority(b.candidate) - getPriority(a.candidate));
  \<close>
\<close>

definition same_candidate :: "ice_candidate \<Rightarrow> ice_candidate \<Rightarrow> bool" where
  "same_candidate x c = (candidate c = candidate x \<and> sdpMid c = sdpMid x)"

definition uniqueCandidates :: "ice_candidate list \<Rightarrow> ice_candidate list" where
  "uniqueCandidates candidates =
     js_filter (\<lambda>x index self. index = findIndex (same_candidate x) self) candidates"

definition byPriority :: "ice_candidate \<Rightarrow> ice_candidate \<Rightarrow> int" where
  "byPriority a b = getPriority (candidate b) - getPriority (candidate a)"

definition optimizeIceCandidates :: "ice_candidate list \<Rightarrow> ice_candidate list" where
  "optimizeIceCandidates candidates = js_sort byPriority (uniqueCandidates candidates)"

text \<open>
  The same function on a store of arrays (an address is an index into the store), to see
  what is allocated and what is overwritten: \<open>filter\<close> allocates the array of unique
  candidates, \<open>sort\<close> sorts that new array in place and returns it. An address outside the
  store stands for \<open>undefined\<close>, on which \<open>.filter\<close> raises.
\<close>

type_synonym array_store = "ice_candidate list list"

definition optimizeIceCandidates_store :: "array_store \<Rightarrow> nat \<Rightarrow> (array_store \<times> nat) option" where
  "optimizeIceCandidates_store st a =
     (if a < length st then
        let u = length st;
            st1 = st @ [uniqueCandidates (st ! a)];
            st2 = st1[u := js_sort byPriority (st1 ! u)]
        in Some (st2, u)
      else None)"

text \<open>
  The wording of the specification, for comparison: the deduplication key is the pair of
  descriptor string and media identifier, and an element is kept when its key has not
  been seen further left.
\<close>

definition dedup_key :: "ice_candidate \<Rightarrow> string \<times> string option" where
  "dedup_key c = (candidate c, sdpMid c)"

fun keep_first :: "('a \<Rightarrow> 'k) \<Rightarrow> 'k list \<Rightarrow> 'a list \<Rightarrow> 'a list" where
  "keep_first key seen [] = []"
| "keep_first key seen (x # xs) =
     (if key x \<in> set seen then keep_first key seen xs
      else x # keep_first key (key x # seen) xs)"

definition type_priority :: "ice_candidate \<Rightarrow> int" where
  "type_priority c = getPriority (candidate c)"

text \<open>
  The wording of the specification, for comparison: the candidate's declared type is the
  word that follows \<open>typ\<close> in the descriptor string (the words are separated by single
  spaces), and the priority goes by that type.
\<close>

fun js_split :: "char \<Rightarrow> string \<Rightarrow> string list" where
  "js_split d [] = [[]]"
| "js_split d (c # cs) =
     (if c = d then [] # js_split d cs
      else (case js_split d cs of w # ws \<Rightarrow> (c # w) # ws | [] \<Rightarrow> [[c]]))"

fun word_after_typ :: "string list \<Rightarrow> string option" where
  "word_after_typ (w # t # ws) = (if w = ''typ'' then Some t else word_after_typ (t # ws))"
| "word_after_typ ws = None"

definition candidate_type :: "string \<Rightarrow> string option" where
  "candidate_type s = word_after_typ (js_split CHR '' '' s)"

definition declared_priority :: "string \<Rightarrow> int" where
  "declared_priority s =
     (if candidate_type s = Some ''host'' then 3
      else if candidate_type s = Some ''srflx'' then 2
      else if candidate_type s = Some ''relay'' then 1
      else 0)"

section \<open>Connection quality monitor: \<open>ConnectionQualityMonitor\<close> (signalingOptimizer)\<close>

text \<open>
  Numbers. Byte and packet counters are integers; timestamps are reals. A division can
  leave the finite numbers (the divisor \<open>now - lastTimestamp\<close> may be zero), so the bitrate
  is a finite real or one of the three special values, with the arithmetic and the
  comparison the language gives them. Rounding of finite values is not modelled.
\<close>

datatype jsnum = Fin real | PosInf | NegInf | NaN

fun js_add :: "jsnum \<Rightarrow> jsnum \<Rightarrow> jsnum" where
  "js_add (Fin a) (Fin b) = Fin (a + b)"
| "js_add NaN y = NaN"
| "js_add x NaN = NaN"
| "js_add PosInf NegInf = NaN"
| "js_add NegInf PosInf = NaN"
| "js_add PosInf y = PosInf"
| "js_add x PosInf = PosInf"
| "js_add NegInf y = NegInf"
| "js_add x NegInf = NegInf"

text \<open>\<open>a / b\<close> for finite \<open>a\<close> and \<open>b\<close>; a difference that is zero is \<open>+0\<close>.\<close>

definition js_div :: "real \<Rightarrow> real \<Rightarrow> jsnum" where
  "js_div a b =
     (if b \<noteq> 0 then Fin (a / b)
      else if a = 0 then NaN
      else if 0 < a then PosInf
      else NegInf)"

text \<open>\<open>x < c\<close> for a finite \<open>c\<close>: every comparison with \<open>NaN\<close> is false.\<close>

fun js_less :: "jsnum \<Rightarrow> real \<Rightarrow> bool" where
  "js_less (Fin a) c = (a < c)"
| "js_less NegInf c = True"
| "js_less PosInf c = False"
| "js_less NaN c = False"

text \<open>
  One entry of the statistics report; \<open>packetsLost\<close> may be \<open>undefined\<close>. The platform
  gives \<open>timestamp\<close> in milliseconds and \<open>bytesReceived\<close> in bytes.
\<close>

record stats_report =
  report_type :: string
  kind :: string
  timestamp :: real
  bytesReceived :: int
  packetsLost :: "int option"
  packetsReceived :: int

text \<open>
  The monitor's fields. \<open>lastBitrate\<close> holds the byte count of the last report seen (the
  source's name is kept).
\<close>

record quality_monitor =
  lastBitrate :: int
  lastTimestamp :: real

definition new_quality_monitor :: quality_monitor where
  "new_quality_monitor = \<lparr>lastBitrate = 0, lastTimestamp = 0\<rparr>"

datatype quality = Good | Fair | Poor

record quality_metrics =
  bitrate :: jsnum
  packetLossRate :: real
  emitted_at :: real

text \<open>
  The body of \<open>stats.forEach\<close>. The accumulator is the monitor together with the three local
  variables \<open>totalBitrate\<close>, \<open>packetsLost\<close>, \<open>totalPackets\<close>.
  \<^verbatim>\<open>
  if (report.type === 'inbound-rtp' && report.kind === 'video') {
    const now = report.timestamp;
    const bytes = report.bytesReceived;
    if (this.lastTimestamp) {
      const bitrate = 8 * (bytes - this.lastBitrate) / (now - this.lastTimestamp);
      totalBitrate += bitrate;
    }
    this.lastBitrate = bytes;
    this.lastTimestamp = now;
    if (report.packetsLost !== undefined) {
      packetsLost += report.packetsLost;
      totalPackets += report.packetsReceived + report.packetsLost;
    }
  }
  \<close>
\<close>

type_synonym sample_acc = "quality_monitor \<times> jsnum \<times> int \<times> int"

definition visit_report :: "sample_acc \<Rightarrow> stats_report \<Rightarrow> sample_acc" where
  "visit_report acc report =
     (case acc of (m, totalBitrate, lost, totalPackets) \<Rightarrow>
        if report_type report = ''inbound-rtp'' \<and> kind report = ''video'' then
          let now = timestamp report;
              bytes = bytesReceived report;
              totalBitrate' =
                (if lastTimestamp m \<noteq> 0
                 then js_add totalBitrate
                        (js_div (8 * real_of_int (bytes - lastBitrate m)) (now - lastTimestamp m))
                 else totalBitrate);
              m' = m\<lparr>lastBitrate := bytes, lastTimestamp := now\<rparr>
          in (case packetsLost report of
                Some pl \<Rightarrow> (m', totalBitrate', lost + pl, totalPackets + (packetsReceived report + pl))
              | None \<Rightarrow> (m', totalBitrate', lost, totalPackets))
        else acc)"

fun visit_reports :: "sample_acc \<Rightarrow> stats_report list \<Rightarrow> sample_acc" where
  "visit_reports acc [] = acc"
| "visit_reports acc (r # rs) = visit_reports (visit_report acc r) rs"

text \<open>
  \<^verbatim>\<open>
  let quality = 'good';
  if (totalBitrate < 100000) { quality = 'poor'; }
  else if (totalBitrate < 500000) { quality = 'fair'; }
  if (packetLossRate > 0.05) { quality = 'poor'; }
  else if (packetLossRate > 0.01) { quality = 'fair'; }
  \<close>
\<close>

definition classify :: "jsnum \<Rightarrow> real \<Rightarrow> quality" where
  "classify totalBitrate lossRate =
     (let q0 = Good;
          q1 = (if js_less totalBitrate 100000 then Poor
                else if js_less totalBitrate 500000 then Fair
                else q0);
          q2 = (if lossRate > 5 / 100 then Poor
                else if lossRate > 1 / 100 then Fair
                else q1)
      in q2)"

text \<open>
  One firing of the interval timer: the statistics are visited in order, then
  \<open>onQualityChange(quality, {bitrate, packetLossRate, timestamp})\<close> is called once. The
  result is the monitor afterwards and the arguments of that call; \<open>clock\<close> is \<open>Date.now()\<close>.
\<close>

definition take_sample ::
  "quality_monitor \<Rightarrow> stats_report list \<Rightarrow> real \<Rightarrow> quality_monitor \<times> quality \<times> quality_metrics" where
  "take_sample m stats clock =
     (case visit_reports (m, Fin 0, 0, 0) stats of (m', totalBitrate, lost, totalPackets) \<Rightarrow>
        let rate = (if totalPackets > 0 then real_of_int lost / real_of_int totalPackets else 0)
        in (m', classify totalBitrate rate,
            \<lparr>bitrate = totalBitrate, packetLossRate = rate, emitted_at = clock\<rparr>))"

text \<open>
  The wording of the specification, for comparison: the bitrate of the stream between two
  reports, in bits per second. The platform's report timestamps are in milliseconds.
\<close>

definition stream_bits_per_second :: "stats_report \<Rightarrow> stats_report \<Rightarrow> real" where
  "stream_bits_per_second r1 r2 =
     8 * real_of_int (bytesReceived r2 - bytesReceived r1)
       / ((timestamp r2 - timestamp r1) / 1000)"

section \<open>Reconnection policy: \<open>ConnectionStateManager\<close> (signalingOptimizer)\<close>

text \<open>
  The manager's three fields, and what it does to its surroundings: the states handed to
  \<open>onStateChange\<close> and the delays of the \<open>restartIce\<close> timers it has set, both in order.
\<close>

record state_manager =
  reconnectAttempts :: nat
  maxReconnectAttempts :: nat
  reconnectDelay :: nat
  stateChanges :: "string list"
  scheduledRestarts :: "nat list"









section \<open>Signaling channel adapter: \<open>SignalingService\<close>\<close>

text \<open>
  A thrown value: \<open>new Error(message)\<close> raised by this code, or a rejection that comes out
  of a platform primitive and is passed on as it is.
\<close>

datatype js_error = Error string | Rejected string

text \<open>
  A parsed envelope. \<open>msg_from\<close> and \<open>msg_to\<close> are absent on the kinds that are not
  peer-directed; the kind-specific field (\<open>offer\<close>, \<open>answer\<close>, \<open>candidate\<close>, \<open>roomName\<close>,
  \<open>participants\<close>, \<open>participant\<close>, \<open>participantId\<close>) is carried as \<open>msg_payload\<close>.
\<close>

datatype payload =
    SessionDescription string
  | Candidate ice_candidate
  | RoomName string
  | Participants "string list"
  | Participant string string
  | ParticipantId string
  | NoPayload

record signaling_message =
  msg_type :: string
  msg_from :: "string option"
  msg_to :: "string option"
  msg_payload :: payload

datatype ready_state = CONNECTING | OPEN | CLOSING | CLOSED

text \<open>The socket: its state and the frames handed to \<open>socket.send\<close>, in order.\<close>

record websocket =
  readyState :: ready_state
  sent :: "signaling_message list"

text \<open>
  The service object: the socket, the room and the local participant's name (set when the
  channel is opened), the handlers (a field says whether that callback is set), the
  pending candidates, and \<open>console\<close>, what has been written with \<open>console.error\<close>.
\<close>

record signaling_service =
  socket :: "websocket option"
  sig_roomName :: "string option"
  sig_username :: "string option"
  onSignalingMessage :: bool
  onRoomCreated :: bool
  onRoomJoined :: bool
  onRoomError :: bool
  onParticipantJoined :: bool
  onParticipantLeft :: bool
  pendingCandidates :: "string \<rightharpoonup> ice_candidate list"
  console :: "string list"

definition new_signaling_service :: signaling_service where
  "new_signaling_service =
     \<lparr>socket = None, sig_roomName = None, sig_username = None, onSignalingMessage = False, onRoomCreated = False, onRoomJoined = False,
      onRoomError = False, onParticipantJoined = False, onParticipantLeft = False,
      pendingCandidates = Map.empty, console = []\<rparr>"

text \<open>
  \<^verbatim>\<open>
  sendSignalingMessage(message) {
    if (this.socket && this.socket.readyState === WebSocket.OPEN) {
      this.socket.send(JSON.stringify(message));
    } else {
      console.error('WebSocket is not open');
    }
  }
  \<close>
  The result is a sum so that a raise would be a value; no branch of the source raises.
\<close>

definition sendSignalingMessage ::
  "signaling_service \<Rightarrow> signaling_message \<Rightarrow> js_error + signaling_service" where
  "sendSignalingMessage s message =
     (case socket s of
        Some ws \<Rightarrow>
          if readyState ws = OPEN
          then Inr (s\<lparr>socket := Some (ws\<lparr>sent := sent ws @ [message]\<rparr>)\<rparr>)
          else Inr (s\<lparr>console := console s @ [''WebSocket is not open'']\<rparr>)
      | None \<Rightarrow> Inr (s\<lparr>console := console s @ [''WebSocket is not open'']\<rparr>))"

text \<open>The calls \<open>handleSignalingMessage\<close> can make, with the argument it passes.\<close>

datatype handler_call =
    CallRoomCreated payload
  | CallRoomJoined payload
  | CallParticipantJoined payload
  | CallParticipantLeft payload
  | CallSignalingMessage signaling_message
  | WarnUnknownType string

definition sig_handleSignalingMessage ::
  "signaling_service \<Rightarrow> signaling_message \<Rightarrow> handler_call list" where
  "sig_handleSignalingMessage s message =
     (if msg_type message = ''room_created'' then
        (if onRoomCreated s then [CallRoomCreated (msg_payload message)] else [])
      else if msg_type message = ''room_joined'' then
        (if onRoomJoined s then [CallRoomJoined (msg_payload message)] else [])
      else if msg_type message = ''participant_joined'' then
        (if onParticipantJoined s then [CallParticipantJoined (msg_payload message)] else [])
      else if msg_type message = ''participant_left'' then
        (if onParticipantLeft s then [CallParticipantLeft (msg_payload message)] else [])
      else if msg_type message = ''offer'' then
        (if onSignalingMessage s then [CallSignalingMessage message] else [])
      else if msg_type message = ''answer'' then
        (if onSignalingMessage s then [CallSignalingMessage message] else [])
      else if msg_type message = ''ice_candidate'' then
        (if onSignalingMessage s then [CallSignalingMessage message] else [])
      else [WarnUnknownType (msg_type message)])"

text \<open>The pending candidate queue of the service: a map from peer identifier to a list.\<close>

definition storePendingCandidate ::
  "signaling_service \<Rightarrow> string \<Rightarrow> ice_candidate \<Rightarrow> signaling_service" where
  "storePendingCandidate s peerId c =
     (let m = (case pendingCandidates s peerId of
                 None \<Rightarrow> (pendingCandidates s)(peerId \<mapsto> [])
               | Some q \<Rightarrow> pendingCandidates s)
      in s\<lparr>pendingCandidates := m(peerId \<mapsto> (case m peerId of Some q \<Rightarrow> q @ [c] | None \<Rightarrow> [c]))\<rparr>)"

definition getPendingCandidates :: "signaling_service \<Rightarrow> string \<Rightarrow> ice_candidate list" where
  "getPendingCandidates s peerId = (case pendingCandidates s peerId of Some q \<Rightarrow> q | None \<Rightarrow> [])"

definition clearPendingCandidates :: "signaling_service \<Rightarrow> string \<Rightarrow> signaling_service" where
  "clearPendingCandidates s peerId = s\<lparr>pendingCandidates := (pendingCandidates s)(peerId := None)\<rparr>"

fun storePendingCandidates ::
  "signaling_service \<Rightarrow> string \<Rightarrow> ice_candidate list \<Rightarrow> signaling_service" where
  "storePendingCandidates s peerId [] = s"
| "storePendingCandidates s peerId (c # cs) =
     storePendingCandidates (storePendingCandidate s peerId c) peerId cs"

section \<open>The registered message handler: \<open>OptimizedMeeting.handleSignalingMessage\<close>\<close>

text \<open>
  \<^verbatim>\<open>
  const { type, from, to } = message;
  if (to !== username) return;
  switch (type) {
    case 'offer': await handleOffer(message); break;
    case 'answer': await handleAnswer(message); break;
    case 'ice_candidate': await handleRemoteIceCandidate(message); break;
    default: console.warn('Unknown message type:', type);
  }
  \<close>
  The result is the list of calls made.
\<close>

datatype meeting_call =
    HandleOffer signaling_message
  | HandleAnswer signaling_message
  | HandleRemoteIceCandidate signaling_message
  | WarnUnknownMessage string

definition meeting_handleSignalingMessage :: "string \<Rightarrow> signaling_message \<Rightarrow> meeting_call list" where
  "meeting_handleSignalingMessage username message =
     (if msg_to message \<noteq> Some username then []
      else if msg_type message = ''offer'' then [HandleOffer message]
      else if msg_type message = ''answer'' then [HandleAnswer message]
      else if msg_type message = ''ice_candidate'' then [HandleRemoteIceCandidate message]
      else [WarnUnknownMessage (msg_type message)])"

text \<open>
  An incoming envelope, end to end: the adapter's dispatch, then, for each call of
  \<open>onSignalingMessage\<close>, the handler the meeting component registered for it.
\<close>

fun run_handler_call :: "string \<Rightarrow> handler_call \<Rightarrow> meeting_call list" where
  "run_handler_call username (CallSignalingMessage m) = meeting_handleSignalingMessage username m"
| "run_handler_call username c = []"

definition receive_envelope ::
  "signaling_service \<Rightarrow> string \<Rightarrow> signaling_message \<Rightarrow> meeting_call list" where
  "receive_envelope s username message =
     concat (map (run_handler_call username) (sig_handleSignalingMessage s message))"

section \<open>Fallback negotiation: \<open>setupFallbackMechanism\<close> (signalingOptimizer)\<close>

record offer_options =
  offerToReceiveAudio :: "bool option"
  offerToReceiveVideo :: "bool option"
  voiceActivityDetection :: "bool option"
  iceRestart :: "bool option"

definition no_options :: offer_options where
  "no_options =
     \<lparr>offerToReceiveAudio = None, offerToReceiveVideo = None,
      voiceActivityDetection = None, iceRestart = None\<rparr>"

datatype negotiation_state = New | HaveLocalOffer | HaveRemoteOffer | Stable | Closed

text \<open>
  Modelled from the spec: the negotiated-media handle is the platform's
  \<open>RTCPeerConnection\<close>, which is not code of this repository. The record keeps what the
  registry can tell about it: an identity given at allocation, the ICE servers it was
  built with, the negotiation state of the specification's state machine (a new handle is
  in state \<open>new\<close>), the descriptions and remote candidates applied so far, how many times
  \<open>setupFallbackMechanism\<close> has wrapped its \<open>createOffer\<close>, and the peer for which the
  registry's event handlers are set.
\<close>

record rtc_pc =
  pc_id :: nat
  iceServers :: "string list"
  negotiation :: negotiation_state
  localDescription :: "string option"
  remoteDescription :: "string option"
  remoteCandidates :: "ice_candidate list"
  fallbackLayers :: nat
  handlersFor :: "string option"

definition new_RTCPeerConnection :: "nat \<Rightarrow> string list \<Rightarrow> rtc_pc" where
  "new_RTCPeerConnection i servers =
     \<lparr>pc_id = i, iceServers = servers, negotiation = New, localDescription = None,
      remoteDescription = None, remoteCandidates = [], fallbackLayers = 0,
      handlersFor = None\<rparr>"

text \<open>
  The platform's primitives are parameters: any function of the handle that yields a
  result or a rejection, and the handle afterwards.
\<close>

type_synonym create_offer_prim = "rtc_pc \<Rightarrow> offer_options \<Rightarrow> (js_error + string) \<times> rtc_pc"
type_synonym set_description_prim = "rtc_pc \<Rightarrow> string \<Rightarrow> js_error option \<times> rtc_pc"
type_synonym add_candidate_prim = "rtc_pc \<Rightarrow> ice_candidate \<Rightarrow> js_error option \<times> rtc_pc"

text \<open>
  \<^verbatim>\<open>
  const fallbackOptions = {
    ...options,
    offerToReceiveAudio: true, offerToReceiveVideo: true, voiceActivityDetection: true
  };
  \<close>
\<close>

definition fallbackOptions :: "offer_options \<Rightarrow> offer_options" where
  "fallbackOptions options =
     options\<lparr>offerToReceiveAudio := Some True, offerToReceiveVideo := Some True,
             voiceActivityDetection := Some True\<rparr>"

text \<open>
  \<^verbatim>\<open>
  const originalCreateOffer = peerConnection.createOffer.bind(peerConnection);
  peerConnection.createOffer = async (options = {}) => {
    try { return await originalCreateOffer(options); }
    catch (error) { ...; return await originalCreateOffer(fallbackOptions); }
  };
  \<close>
  The handle's \<open>createOffer\<close> method after \<open>n\<close> wrappings of the primitive. Besides the
  result and the handle, it yields the option sets the primitive was called with, in
  order: one entry per attempt.
\<close>

fun createOffer_method ::
  "create_offer_prim \<Rightarrow> nat \<Rightarrow> rtc_pc \<Rightarrow> offer_options
     \<Rightarrow> (js_error + string) \<times> rtc_pc \<times> offer_options list" where
  "createOffer_method prim 0 pc options =
     (case prim pc options of (res, pc1) \<Rightarrow> (res, pc1, [options]))"
| "createOffer_method prim (Suc n) pc options =
     (case createOffer_method prim n pc options of
        (Inr offer, pc1, tried) \<Rightarrow> (Inr offer, pc1, tried)
      | (Inl error, pc1, tried) \<Rightarrow>
          (case createOffer_method prim n pc1 (fallbackOptions options) of
             (res, pc2, tried2) \<Rightarrow> (res, pc2, tried @ tried2)))"

definition setupFallbackMechanism :: "rtc_pc \<Rightarrow> rtc_pc" where
  "setupFallbackMechanism pc = pc\<lparr>fallbackLayers := Suc (fallbackLayers pc)\<rparr>"

section \<open>Peer connection registry: \<open>WebRTCService\<close>\<close>

text \<open>
  The service object: its three maps and its four callbacks (set or not), and of the
  platform the number of handles allocated so far and the handles that were closed. One
  call runs to completion before the next starts.
\<close>

record registry =
  allocated :: nat
  peerConnections :: "string \<rightharpoonup> rtc_pc"
  qualityMonitors :: "string \<rightharpoonup> quality_monitor"
  stateManagers :: "string \<rightharpoonup> state_manager"
  closedHandles :: "nat list"
  onConnectionStateChange :: bool
  onQualityChange :: bool
  onIceCandidate :: bool
  onTrack :: bool

definition new_registry :: registry where
  "new_registry =
     \<lparr>allocated = 0, peerConnections = Map.empty, qualityMonitors = Map.empty,
      stateManagers = Map.empty, closedHandles = [], onConnectionStateChange = False,
      onQualityChange = False, onIceCandidate = False, onTrack = False\<rparr>"

definition default_iceServers :: "string list" where
  "default_iceServers =
     [''stun:stun.l.google.com:19302'', ''stun:stun1.l.google.com:19302'',
      ''stun:stun2.l.google.com:19302'', ''stun:stun3.l.google.com:19302'',
      ''stun:stun4.l.google.com:19302'']"

definition setupPeerConnectionEvents :: "rtc_pc \<Rightarrow> string \<Rightarrow> rtc_pc" where
  "setupPeerConnectionEvents pc peerId = pc\<lparr>handlersFor := Some peerId\<rparr>"

text \<open>
  \<^verbatim>\<open>
  createPeerConnection(peerId, config = {}) {
    const peerConnection = new RTCPeerConnection({
      iceServers: config.iceServers || iceServers, ... });
    setupFallbackMechanism(peerConnection);
    this.setupPeerConnectionEvents(peerConnection, peerId);
    this.peerConnections.set(peerId, peerConnection);
    return peerConnection;
  }
  \<close>
  There is no look-up of \<open>peerId\<close> before the allocation.
\<close>

definition createPeerConnection ::
  "registry \<Rightarrow> string \<Rightarrow> string list option \<Rightarrow> registry \<times> rtc_pc" where
  "createPeerConnection r peerId config =
     (let peerConnection =
            new_RTCPeerConnection (allocated r)
              (case config of Some servers \<Rightarrow> servers | None \<Rightarrow> default_iceServers);
          peerConnection = setupFallbackMechanism peerConnection;
          peerConnection = setupPeerConnectionEvents peerConnection peerId
      in (r\<lparr>allocated := Suc (allocated r),
            peerConnections := (peerConnections r)(peerId \<mapsto> peerConnection)\<rparr>,
          peerConnection))"

text \<open>
  Stopping drops the monitor, or the manager, from its map; the interval timer that
  \<open>stopMonitoring\<close> clears is outside this model.
\<close>

definition stopQualityMonitoring :: "registry \<Rightarrow> string \<Rightarrow> registry" where
  "stopQualityMonitoring r peerId =
     (case qualityMonitors r peerId of
        Some monitor \<Rightarrow> r\<lparr>qualityMonitors := (qualityMonitors r)(peerId := None)\<rparr>
      | None \<Rightarrow> r)"

definition stopStateMonitoring :: "registry \<Rightarrow> string \<Rightarrow> registry" where
  "stopStateMonitoring r peerId =
     (case stateManagers r peerId of
        Some manager \<Rightarrow> r\<lparr>stateManagers := (stateManagers r)(peerId := None)\<rparr>
      | None \<Rightarrow> r)"

definition closeConnection :: "registry \<Rightarrow> string \<Rightarrow> registry" where
  "closeConnection r peerId =
     (case peerConnections r peerId of
        Some peerConnection \<Rightarrow>
          (let r1 = stopQualityMonitoring r peerId;
               r2 = stopStateMonitoring r1 peerId;
               r3 = r2\<lparr>closedHandles := closedHandles r2 @ [pc_id peerConnection]\<rparr>
           in r3\<lparr>peerConnections := (peerConnections r3)(peerId := None)\<rparr>)
      | None \<Rightarrow> r)"

definition no_peer_error :: "string \<Rightarrow> js_error" where
  "no_peer_error peerId = Error (''No peer connection found for peer '' @ peerId)"

text \<open>
  \<^verbatim>\<open>
  async addIceCandidate(peerId, candidate) {
    const peerConnection = this.peerConnections.get(peerId);
    if (peerConnection) {
      try { await peerConnection.addIceCandidate(new RTCIceCandidate(candidate)); }
      catch (error) { ...; throw error; }
    } else {
      throw new Error(`No peer connection found for peer ${peerId}`);
    }
  }
  \<close>
  The result is the thrown value, if any, and the registry afterwards.
\<close>

definition addIceCandidate ::
  "add_candidate_prim \<Rightarrow> registry \<Rightarrow> string \<Rightarrow> ice_candidate \<Rightarrow> js_error option \<times> registry" where
  "addIceCandidate prim r peerId c =
     (case peerConnections r peerId of
        Some peerConnection \<Rightarrow>
          (case prim peerConnection c of
             (res, pc1) \<Rightarrow> (res, r\<lparr>peerConnections := (peerConnections r)(peerId \<mapsto> pc1)\<rparr>))
      | None \<Rightarrow> (Some (no_peer_error peerId), r))"

text \<open>
  \<^verbatim>\<open>
  async createOffer(peerId, options = {}) {
    const peerConnection = this.peerConnections.get(peerId);
    if (peerConnection) {
      try {
        const offer = await peerConnection.createOffer(options);
        await peerConnection.setLocalDescription(offer);
        return offer;
      } catch (error) { ...; throw error; }
    }
    throw new Error(`No peer connection found for peer ${peerId}`);
  }
  \<close>
  The third component of the result lists the attempts made on the primitive.
\<close>

definition createOffer ::
  "create_offer_prim \<Rightarrow> set_description_prim \<Rightarrow> registry \<Rightarrow> string \<Rightarrow> offer_options
     \<Rightarrow> (js_error + string) \<times> registry \<times> offer_options list" where
  "createOffer prim setLocalDescription r peerId options =
     (case peerConnections r peerId of
        Some peerConnection \<Rightarrow>
          (case createOffer_method prim (fallbackLayers peerConnection) peerConnection options of
             (Inl error, pc1, tried) \<Rightarrow>
               (Inl error, r\<lparr>peerConnections := (peerConnections r)(peerId \<mapsto> pc1)\<rparr>, tried)
           | (Inr offer, pc1, tried) \<Rightarrow>
               (case setLocalDescription pc1 offer of
                  (Some error, pc2) \<Rightarrow>
                    (Inl error, r\<lparr>peerConnections := (peerConnections r)(peerId \<mapsto> pc2)\<rparr>, tried)
                | (None, pc2) \<Rightarrow>
                    (Inr offer, r\<lparr>peerConnections := (peerConnections r)(peerId \<mapsto> pc2)\<rparr>, tried)))
      | None \<Rightarrow> (Inl (no_peer_error peerId), r, []))"

text \<open>
  \<^verbatim>\<open>
  peerConnection.onicecandidate = (event) => {
    if (event.candidate) {
      const optimizedCandidate = optimizeIceCandidates([event.candidate])[0];
      if (this.onIceCandidate) { this.onIceCandidate(peerId, optimizedCandidate); }
    }
  };
  \<close>
  The result lists the calls of \<open>onIceCandidate\<close> with their arguments; reading index
  \<open>0\<close> of an empty array gives \<open>undefined\<close>, here \<open>None\<close>.
\<close>

definition at_index :: "'a list \<Rightarrow> nat \<Rightarrow> 'a option" where
  "at_index xs i = (if i < length xs then Some (xs ! i) else None)"

definition onicecandidate ::
  "registry \<Rightarrow> string \<Rightarrow> ice_candidate option \<Rightarrow> (string \<times> ice_candidate option) list" where
  "onicecandidate r peerId event_candidate =
     (case event_candidate of
        Some c \<Rightarrow>
          (let optimizedCandidate = at_index (optimizeIceCandidates [c]) 0
           in if onIceCandidate r then [(peerId, optimizedCandidate)] else [])
      | None \<Rightarrow> [])"

text \<open>The candidates a handle gathers, one event each, and what reaches \<open>onIceCandidate\<close>.\<close>

definition gathered :: "registry \<Rightarrow> string \<Rightarrow> ice_candidate list \<Rightarrow> (string \<times> ice_candidate option) list" where
  "gathered r peerId cs = concat (map (\<lambda>c. onicecandidate r peerId (Some c)) cs)"

section \<open>Sample data\<close>

definition cand :: "string \<Rightarrow> string \<Rightarrow> nat \<Rightarrow> ice_candidate" where
  "cand s mid i =
     \<lparr>candidate = s, sdpMid = Some mid, sdpMLineIndex = Some i, usernameFragment = None\<rparr>"

definition host_cand :: string where
  "host_cand = ''1 1 udp 2122260223 10.0.0.2 5000 typ host''"

definition srflx_cand :: string where
  "srflx_cand = ''2 1 udp 1686052607 203.0.113.7 5000 typ srflx''"

definition relay_cand :: string where
  "relay_cand = ''3 1 udp 41885439 198.51.100.9 3478 typ relay''"

text \<open>A relay candidate whose username fragment happens to be the word \<open>host\<close>.\<close>

definition relay_ufrag_host :: string where
  "relay_ufrag_host =
     ''3 1 udp 41885439 198.51.100.9 3478 typ relay raddr 0.0.0.0 rport 0 ufrag host''"

definition gathered_sample :: "ice_candidate list" where
  "gathered_sample =
     [cand relay_cand ''0'' 0, cand host_cand ''0'' 0, cand relay_cand ''0'' 7,
      cand srflx_cand ''0'' 0, cand host_cand ''1'' 1, cand [] ''0'' 0]"

definition video_report :: "real \<Rightarrow> int \<Rightarrow> stats_report" where
  "video_report t bytes =
     \<lparr>report_type = ''inbound-rtp'', kind = ''video'', timestamp = t, bytesReceived = bytes,
      packetsLost = Some 0, packetsReceived = 100\<rparr>"

definition offer_for_carol :: signaling_message where
  "offer_for_carol =
     \<lparr>msg_type = ''offer'', msg_from = Some ''alice'', msg_to = Some ''carol'',
      msg_payload = SessionDescription ''v=0''\<rparr>"

definition bob_listening :: signaling_service where
  "bob_listening =
     new_signaling_service\<lparr>sig_roomName := Some ''room'', sig_username := Some ''bob'',
       onSignalingMessage := True\<rparr>"

text \<open>A platform that accepts everything, for running the registry on concrete inputs.\<close>

definition accept_offer :: create_offer_prim where
  "accept_offer pc options = (Inr ''v=0 offer'', pc)"

definition accept_local :: set_description_prim where
  "accept_local pc d = (None, pc\<lparr>negotiation := HaveLocalOffer, localDescription := Some d\<rparr>)"

definition accept_candidate :: add_candidate_prim where
  "accept_candidate pc c = (None, pc\<lparr>remoteCandidates := remoteCandidates pc @ [c]\<rparr>)"




text \<open>A registry with entries for two peers, before and after an offer was made to one.\<close>

definition early_candidate :: ice_candidate where
  "early_candidate = cand host_cand ''0'' 0"

definition later_candidate :: ice_candidate where
  "later_candidate = cand srflx_cand ''0'' 0"

definition bob_registry :: registry where
  "bob_registry =
     fst (createPeerConnection (fst (createPeerConnection new_registry ''alice'' None)) ''bob'' None)"

definition bob_offered :: registry where
  "bob_offered = fst (snd (createOffer accept_offer accept_local bob_registry ''bob'' no_options))"


section \<open>Properties of the candidate prioritizer\<close>

subsection \<open>Deduplication keeps exactly the first occurrences\<close>

lemma findIndexFrom_skip:
  "\<forall>y\<in>set pre. \<not> p y \<Longrightarrow>
   findIndexFrom p i (pre @ rest) = findIndexFrom p (i + int (length pre)) rest"
  by (induction pre arbitrary: i) (simp_all add: algebra_simps)

lemma findIndexFrom_early:
  "\<exists>y\<in>set pre. p y \<Longrightarrow> findIndexFrom p i (pre @ rest) < i + int (length pre)"
proof (induction pre arbitrary: i)
  case Nil
  then show ?case by simp
next
  case (Cons x pre)
  show ?case
  proof (cases "p x")
    case True
    then show ?thesis by simp
  next
    case False
    with Cons.prems have "\<exists>y\<in>set pre. p y" by simp
    from Cons.IH [OF this, of "i + 1"] False show ?thesis by simp
  qed
qed

lemma keep_first_seen_set:
  "set s1 = set s2 \<Longrightarrow> keep_first key s1 xs = keep_first key s2 xs"
proof (induction xs arbitrary: s1 s2)
  case Nil
  then show ?case by simp
next
  case (Cons x xs)
  have "set (key x # s1) = set (key x # s2)" using Cons.prems by simp
  from Cons.IH [OF this] Cons.IH [OF Cons.prems] Cons.prems show ?case by simp
qed

lemma same_candidate_key: "same_candidate x y \<longleftrightarrow> dedup_key y = dedup_key x"
  by (auto simp: same_candidate_def dedup_key_def)

lemma filterFrom_keep_first:
  "filterFrom (\<lambda>x index self. index = findIndex (same_candidate x) self)
       (int (length pre)) (pre @ suf) suf
   = keep_first dedup_key (map dedup_key pre) suf"
proof (induction suf arbitrary: pre)
  case Nil
  then show ?case by simp
next
  case (Cons x xs)
  let ?f = "\<lambda>x index self. index = findIndex (same_candidate x) self"
  have step: "filterFrom ?f (int (length pre) + 1) (pre @ x # xs) xs
      = keep_first dedup_key (dedup_key x # map dedup_key pre) xs"
  proof -
    have "filterFrom ?f (int (length (pre @ [x]))) ((pre @ [x]) @ xs) xs
      = keep_first dedup_key (map dedup_key (pre @ [x])) xs"
      by (rule Cons.IH)
    moreover have "keep_first dedup_key (map dedup_key (pre @ [x])) xs
      = keep_first dedup_key (dedup_key x # map dedup_key pre) xs"
      by (rule keep_first_seen_set) auto
    ultimately show ?thesis by (simp add: add.commute)
  qed
  show ?case
  proof (cases "dedup_key x \<in> set (map dedup_key pre)")
    case True
    then have "\<exists>y\<in>set pre. same_candidate x y"
      by (auto simp: same_candidate_key)
    from findIndexFrom_early [OF this, of 0 "x # xs"]
    have "findIndex (same_candidate x) (pre @ x # xs) \<noteq> int (length pre)"
      by (simp add: findIndex_def)
    with True step show ?thesis
      using keep_first_seen_set [of "dedup_key x # map dedup_key pre" "map dedup_key pre" dedup_key xs]
      by auto
  next
    case False
    have "\<forall>y\<in>set pre. \<not> same_candidate x y"
    proof (intro ballI notI)
      fix y
      assume y: "y \<in> set pre" and "same_candidate x y"
      then have "dedup_key x = dedup_key y" by (simp add: same_candidate_key)
      then have "dedup_key x \<in> dedup_key ` set pre" using y by (rule image_eqI)
      with False show False by simp
    qed
    moreover have "same_candidate x x" by (simp add: same_candidate_def)
    ultimately have "findIndex (same_candidate x) (pre @ x # xs) = int (length pre)"
      using findIndexFrom_skip [of pre "same_candidate x" 0 "x # xs"]
      by (simp add: findIndex_def)
    with False step show ?thesis by simp
  qed
qed

lemma uniqueCandidates_keep_first:
  "uniqueCandidates cs = keep_first dedup_key [] cs"
  using filterFrom_keep_first [of "[]" cs]
  by (simp add: uniqueCandidates_def js_filter_def)

lemma keep_first_keys_fresh:
  "c \<in> set (keep_first key seen xs) \<Longrightarrow> key c \<notin> set seen"
proof (induction xs arbitrary: seen)
  case Nil
  then show ?case by simp
next
  case (Cons x xs)
  show ?case
  proof (cases "key x \<in> set seen")
    case True
    with Cons.prems Cons.IH [of seen] show ?thesis by simp
  next
    case False
    with Cons.prems have "c = x \<or> c \<in> set (keep_first key (key x # seen) xs)" by simp
    then show ?thesis
    proof
      assume "c = x"
      with False show ?thesis by simp
    next
      assume "c \<in> set (keep_first key (key x # seen) xs)"
      from Cons.IH [OF this] show ?thesis by simp
    qed
  qed
qed

lemma keep_first_subset: "set (keep_first key seen xs) \<subseteq> set xs"
  by (induction xs arbitrary: seen) auto

lemma keep_first_distinct: "distinct (map key (keep_first key seen xs))"
proof (induction xs arbitrary: seen)
  case Nil
  then show ?case by simp
next
  case (Cons x xs)
  have "key x \<notin> key ` set (keep_first key (key x # seen) xs)"
  proof
    assume "key x \<in> key ` set (keep_first key (key x # seen) xs)"
    then obtain c where c: "c \<in> set (keep_first key (key x # seen) xs)" and k: "key x = key c"
      by auto
    from keep_first_keys_fresh [OF c] k show False by simp
  qed
  with Cons.IH show ?case by simp
qed

lemma keep_first_is_first:
  "c \<in> set (keep_first key seen xs) \<Longrightarrow> find (\<lambda>d. key d = key c) xs = Some c"
proof (induction xs arbitrary: seen)
  case Nil
  then show ?case by simp
next
  case (Cons x xs)
  show ?case
  proof (cases "key x \<in> set seen")
    case True
    with Cons.prems have in_rest: "c \<in> set (keep_first key seen xs)" by simp
    then have "key c \<notin> set seen" by (rule keep_first_keys_fresh)
    with True have "key x \<noteq> key c" by auto
    with Cons.IH [OF in_rest] show ?thesis by simp
  next
    case False
    show ?thesis
    proof (cases "c = x")
      case True
      then show ?thesis by simp
    next
      case neq: False
      with False Cons.prems have in_rest: "c \<in> set (keep_first key (key x # seen) xs)" by simp
      then have "key c \<notin> set (key x # seen)" by (rule keep_first_keys_fresh)
      then have "key x \<noteq> key c" by auto
      with Cons.IH [OF in_rest] show ?thesis by simp
    qed
  qed
qed

lemma keep_first_keys:
  "key ` set (keep_first key seen xs) = key ` set xs - set seen"
  by (induction xs arbitrary: seen) auto

subsection \<open>The sort is a stable sort by descending priority\<close>

lemma mset_js_insert: "mset (js_insert cmp x ys) = add_mset x (mset ys)"
  by (induction ys) simp_all

lemma mset_js_sort: "mset (js_sort cmp xs) = mset xs"
  by (induction xs) (simp_all add: mset_js_insert)

lemma set_js_insert: "set (js_insert cmp x ys) = insert x (set ys)"
  by (induction ys) auto

lemma byPriority_le: "byPriority x y \<le> 0 \<longleftrightarrow> type_priority y \<le> type_priority x"
  by (simp add: byPriority_def type_priority_def)

lemma sorted_js_insert:
  "sorted_wrt (\<lambda>a b. type_priority b \<le> type_priority a) ys \<Longrightarrow>
   sorted_wrt (\<lambda>a b. type_priority b \<le> type_priority a) (js_insert byPriority x ys)"
  by (induction ys) (auto simp: set_js_insert byPriority_le)

lemma sorted_js_sort:
  "sorted_wrt (\<lambda>a b. type_priority b \<le> type_priority a) (js_sort byPriority xs)"
  by (induction xs) (simp_all add: sorted_js_insert)

lemma filter_js_insert:
  "filter (\<lambda>c. type_priority c = k) (js_insert byPriority x ys)
   = (if type_priority x = k then x # filter (\<lambda>c. type_priority c = k) ys
      else filter (\<lambda>c. type_priority c = k) ys)"
  by (induction ys) (auto simp: byPriority_le)

lemma js_sort_stable:
  "filter (\<lambda>c. type_priority c = k) (js_sort byPriority xs)
   = filter (\<lambda>c. type_priority c = k) xs"
  by (induction xs) (simp_all add: filter_js_insert)

subsection \<open>The prioritizer as a whole\<close>

lemma optimizeIceCandidates_singleton: "optimizeIceCandidates [c] = [c]"
  by (simp add: optimizeIceCandidates_def uniqueCandidates_keep_first)

lemma gathered_sample_optimized:
  "optimizeIceCandidates gathered_sample =
     [cand host_cand ''0'' 0, cand host_cand ''1'' 1, cand srflx_cand ''0'' 0,
      cand relay_cand ''0'' 0, cand [] ''0'' 0]"
  by code_simp

text \<open>
  What holds for every input list: \<open>optimizeIceCandidates\<close> returns a list in which no two
  entries have the same pair of descriptor string and media identifier; each entry is the
  first element of the input with its pair, and every pair of the input is represented.
  The filter step is the keep-first deduplication of the specification, and the output is
  a permutation of that deduplicated list, ordered by descending \<open>getPriority\<close> of the
  descriptor string (the substring test), entries of equal priority standing in the order
  they have there. On a store of arrays the call allocates one new array for its result and
  leaves every array that existed, the input among them, as it was.
\<close>

lemma optimizeIceCandidates_dedup_stable_sort:
  fixes cs :: "ice_candidate list"
  defines "out \<equiv> optimizeIceCandidates cs"
  shows "distinct (map dedup_key out)
    \<and> (\<forall>c\<in>set out. find (\<lambda>d. dedup_key d = dedup_key c) cs = Some c)
    \<and> dedup_key ` set out = dedup_key ` set cs
    \<and> uniqueCandidates cs = keep_first dedup_key [] cs
    \<and> mset out = mset (keep_first dedup_key [] cs)
    \<and> sorted_wrt (\<lambda>a b. type_priority b \<le> type_priority a) out
    \<and> (\<forall>k. filter (\<lambda>c. type_priority c = k) out
            = filter (\<lambda>c. type_priority c = k) (keep_first dedup_key [] cs))
    \<and> (\<forall>c. type_priority c \<in> {0, 1, 2, 3})
    \<and> (\<forall>st a. a < length st \<longrightarrow>
          (\<exists>st'. optimizeIceCandidates_store st a = Some (st', length st)
              \<and> take (length st) st' = st
              \<and> st' ! length st = optimizeIceCandidates (st ! a)))"
proof -
  have out: "out = js_sort byPriority (keep_first dedup_key [] cs)"
    by (simp add: out_def optimizeIceCandidates_def uniqueCandidates_keep_first)
  have perm: "mset out = mset (keep_first dedup_key [] cs)"
    by (simp add: out mset_js_sort)
  then have sets: "set out = set (keep_first dedup_key [] cs)"
    by (rule mset_eq_setD)
  have "mset (map dedup_key out) = mset (map dedup_key (keep_first dedup_key [] cs))"
    using perm by simp
  then have d: "distinct (map dedup_key out)"
    using keep_first_distinct [of dedup_key "[]" cs] by (metis mset_eq_imp_distinct_iff)
  have f: "\<forall>c\<in>set out. find (\<lambda>d. dedup_key d = dedup_key c) cs = Some c"
    using sets keep_first_is_first [of _ dedup_key "[]" cs] by simp
  have k: "dedup_key ` set out = dedup_key ` set cs"
    using sets keep_first_keys [of dedup_key "[]" cs] by simp
  have s: "sorted_wrt (\<lambda>a b. type_priority b \<le> type_priority a) out"
    by (simp add: out sorted_js_sort)
  have stab: "\<forall>k. filter (\<lambda>c. type_priority c = k) out
            = filter (\<lambda>c. type_priority c = k) (keep_first dedup_key [] cs)"
    by (simp add: out js_sort_stable)
  have pr: "\<forall>c. type_priority c \<in> {0, 1, 2, 3}"
    by (simp add: type_priority_def getPriority_def)
  have store: "\<forall>st a. a < length st \<longrightarrow>
          (\<exists>st'. optimizeIceCandidates_store st a = Some (st', length st)
              \<and> take (length st) st' = st
              \<and> st' ! length st = optimizeIceCandidates (st ! a))"
    by (simp add: optimizeIceCandidates_store_def Let_def optimizeIceCandidates_def nth_append)
  from d f k perm s stab pr store uniqueCandidates_keep_first show ?thesis by blast
qed

text \<open>
  C8. The output should be ordered by descending priority of the candidate's type, host 3,
  server-reflexive 2, relay 1, unknown 0, as the comment in the source says
  (\<open>Prioritize candidates by type (host > srflx > relay)\<close>). The code takes the priority from
  a substring test on the whole descriptor string, so a relay candidate whose descriptor
  contains \<open>host\<close> elsewhere (here as its username fragment) gets priority 3: of a relay, a
  server-reflexive and a host candidate, the relay candidate comes out first, in front of
  the host candidate, and the output is not in descending order of type priority.
\<close>

theorem relay_candidate_ranked_as_host:
  "candidate_type relay_ufrag_host = Some ''relay''
   \<and> declared_priority relay_ufrag_host = 1
   \<and> getPriority relay_ufrag_host = 3
   \<and> map declared_priority [srflx_cand, host_cand] = [2, 3]
   \<and> optimizeIceCandidates
        [cand relay_ufrag_host ''0'' 0, cand srflx_cand ''0'' 0, cand host_cand ''0'' 0]
       = [cand relay_ufrag_host ''0'' 0, cand host_cand ''0'' 0, cand srflx_cand ''0'' 0]
   \<and> map declared_priority (map candidate (optimizeIceCandidates
        [cand relay_ufrag_host ''0'' 0, cand srflx_cand ''0'' 0, cand host_cand ''0'' 0]))
       = [1, 3, 2]"
  by code_simp

section \<open>Properties of the registry's outbound-candidate wiring\<close>

text \<open>
  C10. The \<open>onicecandidate\<close> handler calls the prioritizer on the one-element list of the
  candidate just gathered and passes on element 0 of the result; on a one-element list
  the prioritizer is the identity. So the handler calls \<open>onIceCandidate\<close> (when it is set)
  with exactly the gathered candidate, makes no call for the end-of-gathering event, and a
  run of gathered candidates comes out as it is: same order, duplicates included.
\<close>

theorem onicecandidate_emits_gathered_unchanged:
  "optimizeIceCandidates [c] = [c]
   \<and> onicecandidate r peerId (Some c) = (if onIceCandidate r then [(peerId, Some c)] else [])
   \<and> onicecandidate r peerId None = []
   \<and> gathered r peerId cs = (if onIceCandidate r then map (\<lambda>c. (peerId, Some c)) cs else [])"
proof -
  have ev: "onicecandidate r peerId (Some x) = (if onIceCandidate r then [(peerId, Some x)] else [])"
    for x
    by (simp add: onicecandidate_def optimizeIceCandidates_singleton at_index_def)
  have "gathered r peerId cs = (if onIceCandidate r then map (\<lambda>c. (peerId, Some c)) cs else [])"
    unfolding gathered_def by (induction cs) (simp_all add: ev)
  with ev show ?thesis
    by (simp add: onicecandidate_def optimizeIceCandidates_singleton)
qed

section \<open>Properties of the quality monitor\<close>

text \<open>
  The classification as a function of the two numbers handed over with it: from the
  bitrate value, poor below 100000, fair from 100000 to below 500000, good otherwise; then
  the loss rate overrides: above 5 percent the result is poor, above 1 and up to 5 percent
  it is fair, and up to 1 percent the bitrate's class stands.
\<close>

lemma classify_thresholds:
  "(5 / 100 < l \<longrightarrow> classify b l = Poor)
   \<and> (1 / 100 < l \<and> l \<le> 5 / 100 \<longrightarrow> classify b l = Fair)
   \<and> (l \<le> 1 / 100 \<longrightarrow>
        classify b l = (if js_less b 100000 then Poor else if js_less b 500000 then Fair else Good))
   \<and> (l \<le> 1 / 100 \<longrightarrow>
        classify (Fin x) l = (if x < 100000 then Poor else if x < 500000 then Fair else Good))
   \<and> classify (Fin 50000) 0 = Poor
   \<and> classify (Fin 300000) 0 = Fair
   \<and> classify (Fin 1000000) (6 / 100) = Poor
   \<and> classify (Fin 1000000) (2 / 100) = Fair
   \<and> classify (Fin 1000000) 0 = Good
   \<and> (case take_sample m stats clock of
         (m', q, mt) \<Rightarrow> q = classify (bitrate mt) (packetLossRate mt))"
  by (simp add: classify_def take_sample_def Let_def split: prod.splits)

text \<open>
  C3. A stream of 1 Mbps with no loss should be classified good, and one of 300 kbps
  with no loss fair; the thresholds carry the comments \<open>Less than 100 kbps\<close> and
  \<open>Less than 500 kbps\<close>. The code compares them with \<open>8 * bytes / (now - lastTimestamp)\<close>,
  which is in bits per millisecond. After a baseline at 1000 ms, a report one second later
  with 125000 more bytes (1 Mbps) gives the bitrate 1000, and one with 37500 more bytes
  (300 kbps) gives 300: both samples are handed over as poor.
\<close>

theorem one_megabit_stream_classified_poor:
  "fst (take_sample new_quality_monitor [video_report 1000 1000] 7)
     = \<lparr>lastBitrate = 1000, lastTimestamp = 1000\<rparr>
   \<and> stream_bits_per_second (video_report 1000 1000) (video_report 2000 126000) = 1000000
   \<and> take_sample \<lparr>lastBitrate = 1000, lastTimestamp = 1000\<rparr> [video_report 2000 126000] 8
     = (\<lparr>lastBitrate = 126000, lastTimestamp = 2000\<rparr>, Poor,
        \<lparr>bitrate = Fin 1000, packetLossRate = 0, emitted_at = 8\<rparr>)
   \<and> stream_bits_per_second (video_report 1000 1000) (video_report 2000 38500) = 300000
   \<and> take_sample \<lparr>lastBitrate = 1000, lastTimestamp = 1000\<rparr> [video_report 2000 38500] 8
     = (\<lparr>lastBitrate = 38500, lastTimestamp = 2000\<rparr>, Poor,
        \<lparr>bitrate = Fin 300, packetLossRate = 0, emitted_at = 8\<rparr>)
   \<and> classify (Fin 1000000) 0 = Good \<and> classify (Fin 300000) 0 = Fair"
  by (simp add: take_sample_def visit_report_def video_report_def new_quality_monitor_def
      classify_def js_div_def Let_def stream_bits_per_second_def)

lemma js_add_zero: "js_add (Fin 0) x = x"
  by (cases x) simp_all

lemma first_sample_single_video_report:
  assumes "report_type r = ''inbound-rtp''" and "kind r = ''video''"
  shows "fst (take_sample new_quality_monitor [r] clock)
           = \<lparr>lastBitrate = bytesReceived r, lastTimestamp = timestamp r\<rparr>
         \<and> bitrate (snd (snd (take_sample new_quality_monitor [r] clock))) = Fin 0"
  using assms
  by (simp add: take_sample_def visit_report_def new_quality_monitor_def Let_def
      split: option.splits)

lemma later_sample_single_video_report:
  assumes "report_type r = ''inbound-rtp''" and "kind r = ''video''" and "lastTimestamp m \<noteq> 0"
  shows "bitrate (snd (snd (take_sample m [r] clock)))
           = js_div (8 * real_of_int (bytesReceived r - lastBitrate m))
               (timestamp r - lastTimestamp m)"
  using assms
  by (simp add: take_sample_def visit_report_def Let_def js_add_zero split: option.splits)

text \<open>
  C6. The first sample after start should only record the baseline and contribute no
  bitrate. With one inbound video report in the first sample that is what happens: the
  bitrate handed over is 0 and the report's byte count and timestamp are recorded. With
  two inbound video reports in the first sample the single baseline is set by the first
  report and used for the second one, so the first sample hands over a bitrate computed
  between two different streams: 32000 when their timestamps differ by one, infinite
  (and the quality good) when the timestamps are equal.
\<close>

theorem first_sample_with_two_video_reports:
  "take_sample new_quality_monitor [video_report 1000 1000] 7
     = (\<lparr>lastBitrate = 1000, lastTimestamp = 1000\<rparr>, Poor,
        \<lparr>bitrate = Fin 0, packetLossRate = 0, emitted_at = 7\<rparr>)
   \<and> take_sample new_quality_monitor [video_report 1000 1000, video_report 1001 5000] 7
     = (\<lparr>lastBitrate = 5000, lastTimestamp = 1001\<rparr>, Poor,
        \<lparr>bitrate = Fin 32000, packetLossRate = 0, emitted_at = 7\<rparr>)
   \<and> take_sample new_quality_monitor [video_report 1000 1000, video_report 1000 5000] 7
     = (\<lparr>lastBitrate = 5000, lastTimestamp = 1000\<rparr>, Good,
        \<lparr>bitrate = PosInf, packetLossRate = 0, emitted_at = 7\<rparr>)"
  by (simp add: take_sample_def visit_report_def video_report_def new_quality_monitor_def
      classify_def js_div_def Let_def)

section \<open>Properties of the reconnection policy\<close>




section \<open>Properties of the signaling channel adapter\<close>

text \<open>
  C4, as stated, fails. With no socket, or a socket that is closed, \<open>sendSignalingMessage\<close>
  returns normally: nothing is raised, the envelope is not sent, and the console gets a
  line.
\<close>

theorem send_on_closed_channel_counterexample:
  "sendSignalingMessage new_signaling_service offer_for_carol
     = Inr (new_signaling_service\<lparr>console := [''WebSocket is not open'']\<rparr>)
   \<and> sendSignalingMessage (new_signaling_service\<lparr>socket := Some \<lparr>readyState = CLOSED, sent = []\<rparr>\<rparr>)
        offer_for_carol
     = Inr (new_signaling_service\<lparr>socket := Some \<lparr>readyState = CLOSED, sent = []\<rparr>,
              console := [''WebSocket is not open'']\<rparr>)"
  by (simp add: sendSignalingMessage_def new_signaling_service_def)

text \<open>
  C4, amended. \<open>sendSignalingMessage\<close> never raises. Called while the socket is absent or
  not open, it returns with the service unchanged but for the line
  \<open>WebSocket is not open\<close> on the console: the envelope is neither sent nor buffered, it is
  dropped. Called while the socket is open, it hands the envelope to the socket.
\<close>

theorem send_not_open_is_logged_drop:
  "(\<exists>s'. sendSignalingMessage s message = Inr s')
   \<and> (\<not> (\<exists>ws. socket s = Some ws \<and> readyState ws = OPEN) \<longrightarrow>
        sendSignalingMessage s message = Inr (s\<lparr>console := console s @ [''WebSocket is not open'']\<rparr>))
   \<and> (\<forall>ws. socket s = Some ws \<and> readyState ws = OPEN \<longrightarrow>
        sendSignalingMessage s message = Inr (s\<lparr>socket := Some (ws\<lparr>sent := sent ws @ [message]\<rparr>)\<rparr>))"
  by (auto simp: sendSignalingMessage_def split: option.splits)

theorem send_not_open_is_logged_drop_witness:
  "\<not> (\<exists>ws. socket new_signaling_service = Some ws \<and> readyState ws = OPEN)
   \<and> sendSignalingMessage new_signaling_service offer_for_carol
       = Inr (new_signaling_service\<lparr>console := [''WebSocket is not open'']\<rparr>)
   \<and> socket (new_signaling_service\<lparr>socket := Some \<lparr>readyState = OPEN, sent = []\<rparr>\<rparr>) = Some \<lparr>readyState = OPEN, sent = []\<rparr> \<and> readyState \<lparr>readyState = OPEN, sent = []\<rparr> = OPEN
   \<and> sendSignalingMessage (new_signaling_service\<lparr>socket := Some \<lparr>readyState = OPEN, sent = []\<rparr>\<rparr>) offer_for_carol
       = Inr (new_signaling_service\<lparr>socket := Some \<lparr>readyState = OPEN, sent = [offer_for_carol]\<rparr>\<rparr>)"
proof -
  have h: "\<not> (\<exists>ws. socket new_signaling_service = Some ws \<and> readyState ws = OPEN)"
    by (simp add: new_signaling_service_def)
  have c: "console new_signaling_service = []" by (simp add: new_signaling_service_def)
  let ?s = "new_signaling_service\<lparr>socket := Some \<lparr>readyState = OPEN, sent = []\<rparr>\<rparr>"
  have h2: "socket ?s = Some \<lparr>readyState = OPEN, sent = []\<rparr> \<and> readyState \<lparr>readyState = OPEN, sent = []\<rparr> = OPEN"
    by simp
  from send_not_open_is_logged_drop [of new_signaling_service offer_for_carol] h c
  have a: "sendSignalingMessage new_signaling_service offer_for_carol
       = Inr (new_signaling_service\<lparr>console := [''WebSocket is not open'']\<rparr>)" by simp
  from send_not_open_is_logged_drop [of ?s offer_for_carol] h2
  have b: "sendSignalingMessage ?s offer_for_carol
       = Inr (new_signaling_service\<lparr>socket := Some \<lparr>readyState = OPEN, sent = [offer_for_carol]\<rparr>\<rparr>)"
    by simp
  from h a h2 b show ?thesis by blast
qed

text \<open>
  C7, as stated, fails. The adapter does not look at \<open>to\<close>: an offer addressed to
  \<open>carol\<close> that arrives at \<open>bob\<close> is dispatched to the registered \<open>onSignalingMessage\<close> handler.
\<close>

theorem misaddressed_envelope_dispatched_counterexample:
  "sig_username bob_listening = Some ''bob''
   \<and> msg_to offer_for_carol = Some ''carol''
   \<and> sig_handleSignalingMessage bob_listening offer_for_carol = [CallSignalingMessage offer_for_carol]"
  by (simp add: bob_listening_def new_signaling_service_def offer_for_carol_def
      sig_handleSignalingMessage_def)

text \<open>
  C7, amended. The adapter dispatches every offer, answer and ICE candidate envelope to
  the registered \<open>onSignalingMessage\<close> handler, whatever its \<open>to\<close> field. That handler, the
  meeting component's \<open>handleSignalingMessage\<close>, returns at once when \<open>to\<close> is not the local
  participant's name: none of \<open>handleOffer\<close>, \<open>handleAnswer\<close>, \<open>handleRemoteIceCandidate\<close> is
  called, so the envelope is never processed. An envelope addressed to the local
  participant is passed to the function for its kind.
\<close>

theorem misaddressed_envelope_not_processed:
  "(msg_to message \<noteq> Some username \<longrightarrow>
      meeting_handleSignalingMessage username message = []
      \<and> receive_envelope s username message = [])
   \<and> (onSignalingMessage s
        \<and> (msg_type message = ''offer'' \<or> msg_type message = ''answer''
             \<or> msg_type message = ''ice_candidate'') \<longrightarrow>
      sig_handleSignalingMessage s message = [CallSignalingMessage message])
   \<and> (onSignalingMessage s \<and> msg_to message = Some username \<longrightarrow>
        (msg_type message = ''offer'' \<longrightarrow> receive_envelope s username message = [HandleOffer message])
      \<and> (msg_type message = ''answer'' \<longrightarrow> receive_envelope s username message = [HandleAnswer message])
      \<and> (msg_type message = ''ice_candidate'' \<longrightarrow>
            receive_envelope s username message = [HandleRemoteIceCandidate message]))"
  by (simp add: meeting_handleSignalingMessage_def receive_envelope_def
      sig_handleSignalingMessage_def)

theorem misaddressed_envelope_not_processed_witness:
  "msg_to offer_for_carol \<noteq> Some ''bob''
   \<and> receive_envelope bob_listening ''bob'' offer_for_carol = []
   \<and> onSignalingMessage bob_listening \<and> msg_type offer_for_carol = ''offer''
   \<and> sig_handleSignalingMessage bob_listening offer_for_carol = [CallSignalingMessage offer_for_carol]
   \<and> msg_to offer_for_carol = Some ''carol''
   \<and> receive_envelope bob_listening ''carol'' offer_for_carol = [HandleOffer offer_for_carol]"
proof -
  have h1: "msg_to offer_for_carol \<noteq> Some ''bob''" by (simp add: offer_for_carol_def)
  have h2: "onSignalingMessage bob_listening" by (simp add: bob_listening_def)
  have h3: "msg_type offer_for_carol = ''offer''" by (simp add: offer_for_carol_def)
  have h4: "msg_to offer_for_carol = Some ''carol''" by (simp add: offer_for_carol_def)
  from misaddressed_envelope_not_processed [of offer_for_carol "''bob''" bob_listening] h1 h2 h3
  have a: "receive_envelope bob_listening ''bob'' offer_for_carol = []"
    and b: "sig_handleSignalingMessage bob_listening offer_for_carol = [CallSignalingMessage offer_for_carol]"
    by blast+
  from misaddressed_envelope_not_processed [of offer_for_carol "''carol''" bob_listening] h2 h3 h4
  have c: "receive_envelope bob_listening ''carol'' offer_for_carol = [HandleOffer offer_for_carol]"
    by blast
  from h1 a h2 h3 b h4 c show ?thesis by blast
qed

section \<open>Properties of the peer connection registry\<close>

subsection \<open>The sample registries\<close>

lemma bob_registry_bob:
  "peerConnections bob_registry ''bob''
     = Some \<lparr>pc_id = 1, iceServers = default_iceServers, negotiation = New,
             localDescription = None, remoteDescription = None, remoteCandidates = [],
             fallbackLayers = Suc 0, handlersFor = Some ''bob''\<rparr>"
  by (simp add: bob_registry_def createPeerConnection_def new_registry_def
      setupPeerConnectionEvents_def setupFallbackMechanism_def new_RTCPeerConnection_def Let_def)

lemma bob_registry_allocated: "allocated bob_registry = 2"
  by (simp add: bob_registry_def createPeerConnection_def new_registry_def Let_def)

lemma bob_offered_bob:
  "peerConnections bob_offered ''bob''
     = Some \<lparr>pc_id = 1, iceServers = default_iceServers, negotiation = HaveLocalOffer,
             localDescription = Some ''v=0 offer'', remoteDescription = None,
             remoteCandidates = [], fallbackLayers = Suc 0, handlersFor = Some ''bob''\<rparr>"
  by (simp add: bob_offered_def createOffer_def bob_registry_bob accept_offer_def accept_local_def)

lemma bob_offered_allocated: "allocated bob_offered = 2"
  by (simp add: bob_offered_def createOffer_def bob_registry_bob accept_offer_def accept_local_def
      bob_registry_allocated)

lemma bob_offered_alice: "peerConnections bob_offered ''alice'' = peerConnections bob_registry ''alice''"
  by (simp add: bob_offered_def createOffer_def bob_registry_bob accept_offer_def accept_local_def)


subsection \<open>Candidates that arrive before the entry exists\<close>

text \<open>
  C1, as stated, fails. A candidate that arrives for \<open>bob\<close> while the registry has no entry
  for \<open>bob\<close> is rejected with the error \<open>No peer connection found for peer bob\<close>; the
  registry is as before, and the entry created afterwards has no remote candidate: the
  candidate is lost.
\<close>

theorem early_candidate_rejected_counterexample:
  "peerConnections new_registry ''bob'' = None
   \<and> addIceCandidate accept_candidate new_registry ''bob'' early_candidate
       = (Some (Error ''No peer connection found for peer bob''), new_registry)
   \<and> remoteCandidates (snd (createPeerConnection
        (snd (addIceCandidate accept_candidate new_registry ''bob'' early_candidate)) ''bob'' None))
       = []"
  by (simp add: addIceCandidate_def new_registry_def no_peer_error_def createPeerConnection_def
      setupPeerConnectionEvents_def setupFallbackMechanism_def new_RTCPeerConnection_def Let_def)

lemma getPending_store:
  "getPendingCandidates (storePendingCandidate s p c) q
     = (if q = p then getPendingCandidates s p @ [c] else getPendingCandidates s q)"
  by (simp add: getPendingCandidates_def storePendingCandidate_def Let_def split: option.splits)

lemma getPending_stores:
  "getPendingCandidates (storePendingCandidates s p cs) q
     = (if q = p then getPendingCandidates s p @ cs else getPendingCandidates s q)"
  by (induction cs arbitrary: s) (simp_all add: getPending_store)

text \<open>
  C1, amended. While no entry exists for \<open>p\<close>, \<open>addIceCandidate\<close> rejects the candidate
  with the error \<open>No peer connection found for peer p\<close> and leaves the registry as it
  is; nothing is enqueued. With an entry, the candidate is handed to the platform
  primitive and its outcome is passed on. \<open>createPeerConnection\<close> replays nothing: the new
  handle has no remote candidate. The pending candidate queue of the signaling service
  keeps what is stored for a peer in arrival order, apart from the other peers' queues,
  until it is cleared; the registry makes no use of it.
\<close>

theorem early_candidate_is_rejected_not_queued:
  "(peerConnections r p = None \<longrightarrow>
      addIceCandidate prim r p c = (Some (no_peer_error p), r))
   \<and> (\<forall>pc. peerConnections r p = Some pc \<longrightarrow>
        addIceCandidate prim r p c
          = (fst (prim pc c), r\<lparr>peerConnections := (peerConnections r)(p \<mapsto> snd (prim pc c))\<rparr>))
   \<and> remoteCandidates (snd (createPeerConnection r p config)) = []
   \<and> getPendingCandidates (storePendingCandidates s p cs) p = getPendingCandidates s p @ cs
   \<and> (q \<noteq> p \<longrightarrow> getPendingCandidates (storePendingCandidates s p cs) q = getPendingCandidates s q)
   \<and> getPendingCandidates (clearPendingCandidates s p) p = []"
proof -
  have add: "(peerConnections r p = None \<longrightarrow>
      addIceCandidate prim r p c = (Some (no_peer_error p), r))
   \<and> (\<forall>pc. peerConnections r p = Some pc \<longrightarrow>
        addIceCandidate prim r p c
          = (fst (prim pc c), r\<lparr>peerConnections := (peerConnections r)(p \<mapsto> snd (prim pc c))\<rparr>))"
    by (simp add: addIceCandidate_def split: prod.splits)
  have create: "remoteCandidates (snd (createPeerConnection r p config)) = []"
    by (simp add: createPeerConnection_def setupPeerConnectionEvents_def
        setupFallbackMechanism_def new_RTCPeerConnection_def Let_def)
  have queue: "getPendingCandidates (storePendingCandidates s p cs) p = getPendingCandidates s p @ cs
     \<and> (q \<noteq> p \<longrightarrow> getPendingCandidates (storePendingCandidates s p cs) q = getPendingCandidates s q)"
    by (simp add: getPending_stores)
  have clear: "getPendingCandidates (clearPendingCandidates s p) p = []"
    by (simp add: getPendingCandidates_def clearPendingCandidates_def)
  from add create queue clear show ?thesis by blast
qed

theorem early_candidate_is_rejected_not_queued_witness:
  "peerConnections new_registry ''bob'' = None
   \<and> addIceCandidate accept_candidate new_registry ''bob'' early_candidate
       = (Some (no_peer_error ''bob''), new_registry)
   \<and> (\<exists>pc. peerConnections bob_registry ''bob'' = Some pc
         \<and> fst (addIceCandidate accept_candidate bob_registry ''bob'' early_candidate) = None
         \<and> peerConnections (snd (addIceCandidate accept_candidate bob_registry ''bob'' early_candidate)) ''bob''
             = Some (pc\<lparr>remoteCandidates := [early_candidate]\<rparr>))
   \<and> ''alice'' \<noteq> ''bob''
   \<and> getPendingCandidates
        (storePendingCandidates new_signaling_service ''bob'' [early_candidate, later_candidate]) ''bob''
       = [early_candidate, later_candidate]
   \<and> getPendingCandidates
        (storePendingCandidates new_signaling_service ''bob'' [early_candidate, later_candidate]) ''alice''
       = []"
proof -
  have h1: "peerConnections new_registry ''bob'' = None" by (simp add: new_registry_def)
  have h2: "''alice'' \<noteq> ''bob''" by simp
  have e: "getPendingCandidates new_signaling_service p = []" for p
    by (simp add: getPendingCandidates_def new_signaling_service_def)
  note t1 = early_candidate_is_rejected_not_queued
    [of new_registry "''bob''" accept_candidate early_candidate None new_signaling_service
       "[early_candidate, later_candidate]" "''alice''"]
  note t2 = early_candidate_is_rejected_not_queued
    [of bob_registry "''bob''" accept_candidate early_candidate None new_signaling_service
       "[early_candidate, later_candidate]" "''alice''"]
  from t1 h1 have a: "addIceCandidate accept_candidate new_registry ''bob'' early_candidate
       = (Some (no_peer_error ''bob''), new_registry)" by blast
  from t1 h2 e have q: "getPendingCandidates
        (storePendingCandidates new_signaling_service ''bob'' [early_candidate, later_candidate]) ''bob''
       = [early_candidate, later_candidate]"
    and q': "getPendingCandidates
        (storePendingCandidates new_signaling_service ''bob'' [early_candidate, later_candidate]) ''alice''
       = []" by simp_all
  from t2 bob_registry_bob
  have "addIceCandidate accept_candidate bob_registry ''bob'' early_candidate
      = (fst (accept_candidate (the (peerConnections bob_registry ''bob'')) early_candidate),
         bob_registry\<lparr>peerConnections := (peerConnections bob_registry)(''bob'' \<mapsto>
            snd (accept_candidate (the (peerConnections bob_registry ''bob'')) early_candidate))\<rparr>)"
    by simp
  then have b: "\<exists>pc. peerConnections bob_registry ''bob'' = Some pc
         \<and> fst (addIceCandidate accept_candidate bob_registry ''bob'' early_candidate) = None
         \<and> peerConnections (snd (addIceCandidate accept_candidate bob_registry ''bob'' early_candidate)) ''bob''
             = Some (pc\<lparr>remoteCandidates := [early_candidate]\<rparr>)"
    by (simp add: bob_registry_bob accept_candidate_def)
  from h1 a b h2 q q' show ?thesis by blast
qed

subsection \<open>Creating an entry twice, and after closing\<close>

text \<open>
  C2, as stated, fails. A second \<open>createPeerConnection\<close> for \<open>bob\<close>, whose entry has handle
  1 and has reached \<open>have-local-offer\<close>, allocates handle 2 and puts it in place of the
  entry: what is returned is a new entry in state \<open>new\<close>, not the existing one.
\<close>

theorem createPeerConnection_twice_counterexample:
  "map_option pc_id (peerConnections bob_offered ''bob'') = Some 1
   \<and> map_option negotiation (peerConnections bob_offered ''bob'') = Some HaveLocalOffer
   \<and> allocated bob_offered = 2
   \<and> pc_id (snd (createPeerConnection bob_offered ''bob'' None)) = 2
   \<and> negotiation (snd (createPeerConnection bob_offered ''bob'' None)) = New
   \<and> allocated (fst (createPeerConnection bob_offered ''bob'' None)) = 3
   \<and> peerConnections (fst (createPeerConnection bob_offered ''bob'' None)) ''bob''
       = Some (snd (createPeerConnection bob_offered ''bob'' None))
   \<and> peerConnections (fst (createPeerConnection bob_offered ''bob'' None)) ''bob''
       \<noteq> peerConnections bob_offered ''bob''"
  by (simp add: bob_offered_bob bob_offered_allocated createPeerConnection_def
      setupPeerConnectionEvents_def setupFallbackMechanism_def new_RTCPeerConnection_def Let_def)

lemma closeConnection_entry: "peerConnections (closeConnection r p) q = (if q = p then None else peerConnections r q)"
  by (auto simp: closeConnection_def stopQualityMonitoring_def stopStateMonitoring_def Let_def
      split: option.splits)

lemma closeConnection_allocated: "allocated (closeConnection r p) = allocated r"
  by (simp add: closeConnection_def stopQualityMonitoring_def stopStateMonitoring_def Let_def
      split: option.splits)

lemma closeConnection_idem: "closeConnection (closeConnection r p) p = closeConnection r p"
  using closeConnection_entry [of r p p] by (simp add: closeConnection_def [of "closeConnection r p"])

text \<open>
  C2, amended. Every call of \<open>createPeerConnection\<close> allocates a new handle, in state
  \<open>new\<close> with no description and no remote candidate, and stores it under \<open>p\<close> in place of
  whatever entry \<open>p\<close> had; the entries of other peers stay. \<open>closeConnection\<close> removes the
  entry and is idempotent, and \<open>closeConnection\<close> followed by \<open>createPeerConnection\<close> yields
  a fresh entry with reset negotiation state.
\<close>

theorem createPeerConnection_always_allocates:
  "(case createPeerConnection r p config of
      (r', pc) \<Rightarrow>
        peerConnections r' p = Some pc
        \<and> pc_id pc = allocated r \<and> allocated r' = Suc (allocated r)
        \<and> negotiation pc = New \<and> localDescription pc = None \<and> remoteDescription pc = None
        \<and> remoteCandidates pc = []
        \<and> (\<forall>q. q \<noteq> p \<longrightarrow> peerConnections r' q = peerConnections r q))
   \<and> peerConnections (closeConnection r p) p = None
   \<and> closeConnection (closeConnection r p) p = closeConnection r p
   \<and> (case createPeerConnection (closeConnection r p) p config of
        (r', pc) \<Rightarrow>
          peerConnections r' p = Some pc
          \<and> pc_id pc = allocated r \<and> allocated r' = Suc (allocated r)
          \<and> negotiation pc = New \<and> localDescription pc = None \<and> remoteDescription pc = None
          \<and> remoteCandidates pc = []
          \<and> (\<forall>q. q \<noteq> p \<longrightarrow> peerConnections r' q = peerConnections r q))"
  by (simp add: createPeerConnection_def setupPeerConnectionEvents_def
      setupFallbackMechanism_def new_RTCPeerConnection_def Let_def closeConnection_entry
      closeConnection_allocated closeConnection_idem)

theorem createPeerConnection_always_allocates_witness:
  "''alice'' \<noteq> ''bob''
   \<and> map_option negotiation (peerConnections bob_offered ''bob'') = Some HaveLocalOffer
   \<and> map_option pc_id (peerConnections bob_offered ''bob'') = Some 1
   \<and> pc_id (snd (createPeerConnection bob_offered ''bob'' None)) = 2
   \<and> negotiation (snd (createPeerConnection bob_offered ''bob'' None)) = New
   \<and> peerConnections (fst (createPeerConnection bob_offered ''bob'' None)) ''alice''
       = peerConnections bob_offered ''alice''
   \<and> pc_id (snd (createPeerConnection (closeConnection bob_offered ''bob'') ''bob'' None)) = 2
   \<and> negotiation (snd (createPeerConnection (closeConnection bob_offered ''bob'') ''bob'' None)) = New
   \<and> localDescription (snd (createPeerConnection (closeConnection bob_offered ''bob'') ''bob'' None)) = None"
proof -
  have h: "''alice'' \<noteq> ''bob''" by simp
  from createPeerConnection_always_allocates [where r = bob_offered and p = "''bob''" and config = None] h
  show ?thesis
    by (simp add: bob_offered_bob bob_offered_allocated split: prod.splits)
qed

section \<open>Properties of the fallback negotiation\<close>



end
